theory Spec2Isabelle
  imports Complex_Main "HOL-Library.Sublist" "HOL-Library.Multiset"
begin

section \<open>Python strings\<close>

text \<open>
  A Python \<open>str\<close> is a sequence of Unicode code points; \<open>len\<close>, slicing and the
  \<open>in\<close> operator all count code points.  A string is therefore a list of code points
  (natural numbers).  ASCII text of the source is written through \<open>ascii\<close>; a character
  beyond ASCII is written as its code point.
\<close>

type_synonym pystr = "nat list"

definition ascii :: "string \<Rightarrow> pystr" where
  "ascii cs = map of_char cs"

text \<open>\<open>kw in text\<close> on strings: \<open>kw\<close> occurs as a contiguous run of \<open>text\<close>.\<close>

fun py_in :: "pystr \<Rightarrow> pystr \<Rightarrow> bool" where
  "py_in kw [] = (kw = [])"
| "py_in kw (c # cs) = (prefix kw (c # cs) \<or> py_in kw cs)"

text \<open>
  The characters \<open>str.strip()\<close> and \<open>str.split()\<close> treat as whitespace
  (\<open>str.isspace\<close>).
\<close>

definition is_space :: "nat \<Rightarrow> bool" where
  "is_space c \<longleftrightarrow>
     (9 \<le> c \<and> c \<le> 13) \<or> (28 \<le> c \<and> c \<le> 32) \<or> c = 133 \<or> c = 160 \<or> c = 5760 \<or>
     (8192 \<le> c \<and> c \<le> 8202) \<or> c = 8232 \<or> c = 8233 \<or> c = 8239 \<or> c = 8287 \<or> c = 12288"

definition strip :: "pystr \<Rightarrow> pystr" where
  "strip s = rev (dropWhile is_space (rev (dropWhile is_space s)))"

text \<open>
  \<open>str.lower()\<close> is the interpreter's Unicode case mapping.  The functions below take
  it as the parameter \<open>lower\<close>; \<open>lower_latin1\<close> is that mapping on the code points
  below 256 and is used where a concrete utterance is evaluated.
\<close>

definition lower_char :: "nat \<Rightarrow> nat" where
  "lower_char c =
     (if (65 \<le> c \<and> c \<le> 90) \<or> (192 \<le> c \<and> c \<le> 222 \<and> c \<noteq> 215) then c + 32 else c)"

definition lower_latin1 :: "pystr \<Rightarrow> pystr" where
  "lower_latin1 s = map lower_char s"

section \<open>The keyword router (src/graph.py, router_node)\<close>

text \<open>
  The content of a message is a string, or something else (a list of content blocks)
  of which only the \<open>str()\<close> rendering matters here.  An element of the history is a
  \<open>HumanMessage\<close>, another message object, or an object without a \<open>content\<close>
  attribute.  The key \<open>messages\<close> may be absent from the state dictionary.
\<close>

datatype msg_content = Text pystr | Blocks pystr

datatype message =
  HumanMessage msg_content | AIMessage msg_content | SystemMessage msg_content | NoContent

record AgentState =
  messages :: "message list option"

datatype py_error = KeyError | AttributeError

definition finance_keywords :: "pystr list" where
  "finance_keywords =
     [ascii ''dinero'', ascii ''gasto'', ascii ''presupuesto'', ascii ''gastos'',
      ascii ''financiero'', ascii ''salario'', ascii ''ingresos'', ascii ''presupuesto'',
      ascii ''tarjeta'', ascii ''banco'', ascii ''balance'', ascii ''cuenta'', ascii ''pago'',
      ascii ''factura'', ascii ''deuda'', ascii ''costo'']"

definition health_keywords :: "pystr list" where
  "health_keywords =
     [ascii ''ejercicio'', ascii ''h'' @ [225] @ ascii ''bito'', ascii ''salud'', ascii ''gym'',
      ascii ''deporte'', ascii ''m'' @ [233] @ ascii ''dico'', ascii ''medicina'',
      ascii ''ejercitar'', ascii ''correr'', ascii ''caminar'', ascii ''yoga'',
      ascii ''meditaci'' @ [243] @ ascii ''n'', ascii ''h'' @ [225] @ ascii ''bitos'',
      ascii ''rutina'', ascii ''entrenamiento'', ascii ''actividad'', ascii ''peso'']"

definition docs_keywords :: "pystr list" where
  "docs_keywords =
     [ascii ''documento'', ascii ''contrato'', ascii ''p'' @ [243] @ ascii ''liza'',
      ascii ''informaci'' @ [243] @ ascii ''n'', ascii ''buscar'', ascii ''seguro'',
      ascii ''archivo'', ascii ''plan'', ascii ''calendario'', ascii ''fecha'',
      ascii ''emergencia'', ascii ''contacto'', ascii ''tel'' @ [233] @ ascii ''fono'',
      ascii ''direcci'' @ [243] @ ascii ''n'', ascii ''referencia'',
      ascii ''consult'' @ [225]]"

definition drive_keywords :: "pystr list" where
  "drive_keywords =
     [ascii ''google drive'', ascii ''drive'', ascii ''archivo'', ascii ''carpeta'',
      ascii ''cloud'', ascii ''adjunto'', ascii ''descargar'', ascii ''compartido'',
      ascii ''fotos'', ascii ''documentos'', ascii ''nube'', ascii ''guardar'',
      ascii ''drive compartido'', ascii ''mi drive'', ascii ''archivo en la nube'']"

text \<open>\<open>sum(1 for kw in keywords if kw in user_text)\<close>\<close>

definition keyword_score :: "pystr list \<Rightarrow> pystr \<Rightarrow> nat" where
  "keyword_score keywords user_text = length (filter (\<lambda>kw. py_in kw user_text) keywords)"

text \<open>The \<open>if\<close>/\<open>elif\<close> chain that picks the context from the four scores.\<close>

definition choose_context :: "nat \<Rightarrow> nat \<Rightarrow> nat \<Rightarrow> nat \<Rightarrow> pystr" where
  "choose_context finance_score health_score docs_score drive_score =
     (if drive_score > finance_score \<and> drive_score > health_score \<and>
         drive_score > docs_score \<and> drive_score > 0 then ascii ''drive''
      else if finance_score > health_score \<and> finance_score > docs_score \<and>
              finance_score > 0 then ascii ''finance''
      else if health_score > docs_score \<and> health_score > 0 then ascii ''health''
      else if docs_score > 0 then ascii ''docs''
      else ascii ''general'')"

definition classify :: "pystr \<Rightarrow> pystr" where
  "classify user_text =
     choose_context (keyword_score finance_keywords user_text)
       (keyword_score health_keywords user_text) (keyword_score docs_keywords user_text)
       (keyword_score drive_keywords user_text)"

text \<open>
  The text of the last message.  For a \<open>HumanMessage\<close> it is \<open>content.lower()\<close>,
  which raises \<open>AttributeError\<close> when the content is not a string; for any other
  message it is \<open>str(content).lower()\<close>.
\<close>

definition user_text_of :: "(pystr \<Rightarrow> pystr) \<Rightarrow> message \<Rightarrow> py_error + pystr" where
  "user_text_of lower last_message =
     (case last_message of
        HumanMessage (Text t) \<Rightarrow> Inr (lower t)
      | HumanMessage (Blocks r) \<Rightarrow> Inl AttributeError
      | AIMessage (Text t) \<Rightarrow> Inr (lower t)
      | AIMessage (Blocks r) \<Rightarrow> Inr (lower r)
      | SystemMessage (Text t) \<Rightarrow> Inr (lower t)
      | SystemMessage (Blocks r) \<Rightarrow> Inr (lower r)
      | NoContent \<Rightarrow> Inl AttributeError)"

text \<open>The body of the \<open>try\<close> block: \<open>Inl\<close> is an exception that reaches the handler.\<close>

definition router_body :: "(pystr \<Rightarrow> pystr) \<Rightarrow> AgentState \<Rightarrow> py_error + pystr" where
  "router_body lower state =
     (case messages state of
        None \<Rightarrow> Inl KeyError
      | Some ms \<Rightarrow>
          if ms = [] then Inr (ascii ''general'')
          else (case user_text_of lower (last ms) of
                  Inl e \<Rightarrow> Inl e
                | Inr user_text \<Rightarrow> Inr (classify user_text)))"

text \<open>\<open>router_node\<close>: the value stored under \<open>current_context\<close>.\<close>

definition router_node :: "(pystr \<Rightarrow> pystr) \<Rightarrow> AgentState \<Rightarrow> pystr" where
  "router_node lower state =
     (case router_body lower state of Inl e \<Rightarrow> ascii ''general'' | Inr context \<Rightarrow> context)"

text \<open>
  The selection rule in the words of the specification: the highest positive count
  wins, and a tie goes to the first of file-access, finance, health, documents.
\<close>

definition spec_choose_context :: "nat \<Rightarrow> nat \<Rightarrow> nat \<Rightarrow> nat \<Rightarrow> pystr" where
  "spec_choose_context finance_score health_score docs_score drive_score =
     (let best = max (max drive_score finance_score) (max health_score docs_score)
      in if best = 0 then ascii ''general''
         else if drive_score = best then ascii ''drive''
         else if finance_score = best then ascii ''finance''
         else if health_score = best then ascii ''health''
         else ascii ''docs'')"

section \<open>The document search (src/tools/docs.py)\<close>

text \<open>
  Scores are Python floats.  Their arithmetic is not rewritten as exact arithmetic:
  the search is defined over any linearly ordered type \<open>'f\<close> of float values and a
  record of the operations the source applies to them.  \<open>ratio a b\<close> is
  \<open>SequenceMatcher(None, a, b).ratio()\<close> of the standard library, \<open>float_of\<close> the
  float denoted by a literal, \<open>fmul\<close> and \<open>fadd\<close> the float product and sum, and
  \<open>int_of\<close> the truncation \<open>int(x)\<close>.  \<open>exact_floats\<close> is the instance with rational
  arithmetic, used where a concrete input is evaluated.
\<close>

record 'f float_ops =
  ratio :: "pystr \<Rightarrow> pystr \<Rightarrow> 'f"
  float_of :: "rat \<Rightarrow> 'f"
  fmul :: "'f \<Rightarrow> 'f \<Rightarrow> 'f"
  fadd :: "'f \<Rightarrow> 'f \<Rightarrow> 'f"
  int_of :: "'f \<Rightarrow> int"

definition exact_floats :: "(pystr \<Rightarrow> pystr \<Rightarrow> rat) \<Rightarrow> rat float_ops" where
  "exact_floats r =
     \<lparr>ratio = r, float_of = (\<lambda>x. x), fmul = (\<lambda>x y. x * y), fadd = (\<lambda>x y. x + y),
      int_of = (\<lambda>x. if 0 \<le> x then \<lfloor>x\<rfloor> else \<lceil>x\<rceil>)\<rparr>"

text \<open>An entry of \<open>MOCK_DOCS\<close>, and an entry of the result list.\<close>

record CatalogDoc =
  entry_id :: int
  entry_title :: pystr
  entry_content :: pystr
  entry_category :: pystr
  entry_tags :: "pystr list"

record 'f SearchResult =
  doc :: CatalogDoc
  score :: 'f
  reason :: pystr

text \<open>\<open>str.split()\<close> without arguments: the maximal runs of non-whitespace.\<close>

fun split_acc :: "pystr \<Rightarrow> pystr \<Rightarrow> pystr list" where
  "split_acc cur [] = (if cur = [] then [] else [cur])"
| "split_acc cur (c # cs) =
     (if is_space c then (if cur = [] then [] else [cur]) @ split_acc [] cs
      else split_acc (cur @ [c]) cs)"

definition split :: "pystr \<Rightarrow> pystr list" where
  "split s = split_acc [] s"

text \<open>\<open>str.split(sep)\<close> with a one-character separator: empty pieces are kept.\<close>

fun split_on_acc :: "nat \<Rightarrow> pystr \<Rightarrow> pystr \<Rightarrow> pystr list" where
  "split_on_acc sep cur [] = [cur]"
| "split_on_acc sep cur (c # cs) =
     (if c = sep then cur # split_on_acc sep [] cs else split_on_acc sep (cur @ [c]) cs)"

definition split_on :: "nat \<Rightarrow> pystr \<Rightarrow> pystr list" where
  "split_on sep s = split_on_acc sep [] s"

text \<open>\<open>str(n)\<close> for an integer.\<close>

fun str_nat :: "nat \<Rightarrow> pystr" where
  "str_nat n = (if n < 10 then [48 + n] else str_nat (n div 10) @ [48 + n mod 10])"

definition str_int :: "int \<Rightarrow> pystr" where
  "str_int i = (if i < 0 then 45 # str_nat (nat (- i)) else str_nat (nat i))"

text \<open>\<open>xs[:k]\<close>: a negative \<open>k\<close> counts from the end.\<close>

definition slice_to :: "'a list \<Rightarrow> int \<Rightarrow> 'a list" where
  "slice_to xs k = (if 0 \<le> k then take (nat k) xs else take (length xs - nat (- k)) xs)"

definition calculate_similarity :: "'f float_ops \<Rightarrow> (pystr \<Rightarrow> pystr) \<Rightarrow> pystr \<Rightarrow> pystr \<Rightarrow> 'f" where
  "calculate_similarity fl lower query text = ratio fl (lower query) (lower text)"

text \<open>
  What one keyword adds to \<open>tag_matches\<close>: the first branch of the \<open>if\<close>/\<open>elif\<close>
  chain that applies.  The sum is a multiple of one half and stays exact in a float.
\<close>

definition keyword_weight :: "pystr list \<Rightarrow> pystr \<Rightarrow> pystr \<Rightarrow> pystr \<Rightarrow> rat" where
  "keyword_weight tags title category keyword =
     (if keyword \<in> set tags then 2
      else if list_ex (\<lambda>tag. py_in keyword tag) tags then 1
      else if py_in keyword title then 3 / 2
      else if py_in keyword category then 1
      else 0)"

definition tag_matches :: "(pystr \<Rightarrow> pystr) \<Rightarrow> pystr list \<Rightarrow> CatalogDoc \<Rightarrow> rat" where
  "tag_matches lower keywords d =
     fold (\<lambda>keyword total.
             total + keyword_weight (map lower (entry_tags d)) (lower (entry_title d))
                       (lower (entry_category d)) keyword)
       keywords 0"

text \<open>One round of the first loop over \<open>MOCK_DOCS\<close>.\<close>

definition phase1_step ::
  "'f float_ops \<Rightarrow> (pystr \<Rightarrow> pystr) \<Rightarrow> pystr \<Rightarrow> pystr list \<Rightarrow> CatalogDoc \<Rightarrow>
   'f SearchResult list \<Rightarrow> 'f SearchResult list" where
  "phase1_step fl lower query keywords d results =
     (if tag_matches lower keywords d > 0 then
        let content_score = calculate_similarity fl lower query (take 300 (entry_content d));
            total_score = fadd fl (fmul fl (float_of fl (tag_matches lower keywords d))
                                          (float_of fl (6 / 10)))
                                  (fmul fl content_score (float_of fl (4 / 10)))
        in results @ [\<lparr>doc = d, score = total_score, reason = ascii ''tag_match''\<rparr>]
      else results)"

text \<open>One round of the second loop, which skips a document already in the results.\<close>

definition phase2_step ::
  "'f::linorder float_ops \<Rightarrow> (pystr \<Rightarrow> pystr) \<Rightarrow> pystr \<Rightarrow> CatalogDoc \<Rightarrow>
   'f SearchResult list \<Rightarrow> 'f SearchResult list" where
  "phase2_step fl lower query d results =
     (if list_ex (\<lambda>r. entry_id (doc r) = entry_id d) results then results
      else if float_of fl (15 / 100) < calculate_similarity fl lower query (entry_content d)
      then results @ [\<lparr>doc = d, score = calculate_similarity fl lower query (entry_content d),
                       reason = ascii ''content_match''\<rparr>]
      else results)"

text \<open>
  \<open>results.sort(key=lambda x: x["score"], reverse=True)\<close>: a stable sort, entries of
  equal score keep their order.
\<close>

fun insert_desc :: "'f::linorder SearchResult \<Rightarrow> 'f SearchResult list \<Rightarrow> 'f SearchResult list" where
  "insert_desc x [] = [x]"
| "insert_desc x (y # ys) = (if score x < score y then y # insert_desc x ys else x # y # ys)"

definition sort_desc :: "'f::linorder SearchResult list \<Rightarrow> 'f SearchResult list" where
  "sort_desc xs = foldr insert_desc xs []"

definition phase1 ::
  "'f float_ops \<Rightarrow> (pystr \<Rightarrow> pystr) \<Rightarrow> CatalogDoc list \<Rightarrow> pystr \<Rightarrow> 'f SearchResult list" where
  "phase1 fl lower MOCK_DOCS query =
     fold (phase1_step fl lower query (split (lower query))) MOCK_DOCS []"

definition search_documents ::
  "'f::linorder float_ops \<Rightarrow> (pystr \<Rightarrow> pystr) \<Rightarrow> CatalogDoc list \<Rightarrow> pystr \<Rightarrow> int \<Rightarrow>
   'f SearchResult list" where
  "search_documents fl lower MOCK_DOCS query top_k =
     (let results = phase1 fl lower MOCK_DOCS query;
          results = (if int (length results) < top_k
                     then fold (phase2_step fl lower query) MOCK_DOCS results
                     else results)
      in slice_to (sort_desc results) top_k)"

text \<open>
  The search reads the module-level catalog and leaves it as it is.  With the catalog
  as an explicit store, a call returns its result and the store after the call.
\<close>

definition search_call ::
  "'f::linorder float_ops \<Rightarrow> (pystr \<Rightarrow> pystr) \<Rightarrow> pystr \<Rightarrow> int \<Rightarrow> CatalogDoc list \<Rightarrow>
   'f SearchResult list \<times> CatalogDoc list" where
  "search_call fl lower query top_k store = (search_documents fl lower store query top_k, store)"

text \<open>The tool \<open>retrieve_documents\<close>: it formats the three best results as one string.\<close>

definition relevance_icon :: "int \<Rightarrow> pystr" where
  "relevance_icon score_percent =
     (if score_percent \<ge> 80 then [11088, 11088, 11088]
      else if score_percent \<ge> 60 then [11088, 11088]
      else [11088])"

definition format_result ::
  "'f float_ops \<Rightarrow> (pystr \<Rightarrow> pystr) \<Rightarrow> nat \<Rightarrow> 'f SearchResult \<Rightarrow> pystr" where
  "format_result fl upper i result =
     (let d = doc result;
          score_percent = int_of fl (fmul fl (score result) (float_of fl 100));
          preview = strip (take 200 (entry_content d));
          preview = (if length (entry_content d) > 200 then preview @ ascii ''...'' else preview)
      in str_nat i @ ascii ''. '' @ upper (entry_title d) @ ascii '' '' @
         relevance_icon score_percent @ [10] @
         ascii ''   Category: '' @ entry_category d @ ascii '' | Match: '' @
         str_int score_percent @ ascii ''%'' @ [10] @
         ascii ''   Content Preview:'' @ [10] @
         concat (map (\<lambda>line. ascii ''   '' @ line @ [10]) (split_on 10 preview)) @ [10])"

definition retrieve_documents ::
  "'f::linorder float_ops \<Rightarrow> (pystr \<Rightarrow> pystr) \<Rightarrow> (pystr \<Rightarrow> pystr) \<Rightarrow> CatalogDoc list \<Rightarrow>
   pystr \<Rightarrow> pystr" where
  "retrieve_documents fl lower upper MOCK_DOCS query =
     (if query = [] \<or> length (strip query) < 2 then
        [10060] @ ascii '' Error: Query too short. Please provide at least 2 characters.''
      else
        let results = search_documents fl lower MOCK_DOCS query 3 in
        if results = [] then
          [128237] @ ascii '' No relevant documents found for: '' @ [39] @ query @ [39, 10] @
          ascii ''Try searching for: insurance, nutrition, contract, exercise, emergency''
        else
          [128196] @ ascii '' DOCUMENT RETRIEVAL RESULTS'' @ [10] @ replicate 50 61 @ [10] @
          ascii ''Query: '' @ [39] @ query @ [39, 10] @
          ascii ''Found '' @ str_nat (length results) @ ascii '' document(s):'' @ [10, 10] @
          concat (map (\<lambda>(i, result). format_result fl upper i result) (enumerate 1 results)))"

section \<open>The retrieval loop (src/rag/graph.py)\<close>

text \<open>
  A retrieved document is a dictionary read with \<open>.get("title", ...)\<close> and
  \<open>.get("content", ...)\<close>: either key may be absent.  The value under \<open>documents\<close>
  is whatever the retrieval tool returned: a list of such dictionaries, or a string.
\<close>

record Document =
  title :: "pystr option"
  content :: "pystr option"

datatype documents_value = DocList "Document list" | DocStr pystr

record RAGState =
  question :: pystr
  rag_messages :: "message list"
  documents :: documents_value
  generation :: pystr
  web_search :: pystr
  loop_count :: "int option"
  max_loops :: "int option"

text \<open>
  A call either returns a value or raises; \<open>Raises\<close> carries \<open>str(e)\<close>.  A prompt is
  the pair of the system text and the human text, and \<open>llm p\<close> stands for
  \<open>llm.invoke(prompt.format_messages())\<close>: a failure of either is \<open>Raises\<close>.
\<close>

datatype 'a outcome = Returns 'a | Raises pystr

type_synonym prompt = "pystr \<times> pystr"

text \<open>
  The dictionary a node returns: the keys it sets.  The graph stores each of them in
  the state and appends the messages to the history.
\<close>

record Update =
  set_question :: "pystr option"
  set_documents :: "documents_value option"
  set_generation :: "pystr option"
  set_loop_count :: "int option"
  add_messages :: "message list"

definition no_update :: Update where
  "no_update = \<lparr>set_question = None, set_documents = None, set_generation = None,
                 set_loop_count = None, add_messages = []\<rparr>"

definition apply_update :: "RAGState \<Rightarrow> Update \<Rightarrow> RAGState" where
  "apply_update state u =
     state\<lparr>question := (case set_question u of None \<Rightarrow> question state | Some q \<Rightarrow> q),
           documents := (case set_documents u of None \<Rightarrow> documents state | Some d \<Rightarrow> d),
           generation := (case set_generation u of None \<Rightarrow> generation state | Some g \<Rightarrow> g),
           loop_count := (case set_loop_count u of None \<Rightarrow> loop_count state | Some n \<Rightarrow> Some n),
           rag_messages := rag_messages state @ add_messages u\<rparr>"

definition create_initial_rag_state :: "pystr \<Rightarrow> int \<Rightarrow> RAGState" where
  "create_initial_rag_state q m =
     \<lparr>question = q, rag_messages = [], documents = DocList [], generation = [],
      web_search = ascii ''no'', loop_count = Some 0, max_loops = Some m\<rparr>"

text \<open>\<open>state.get("loop_count", 0)\<close> and \<open>state.get("max_loops", 3)\<close>\<close>

definition get_loop_count :: "RAGState \<Rightarrow> int" where
  "get_loop_count state = (case loop_count state of None \<Rightarrow> 0 | Some n \<Rightarrow> n)"

definition get_max_loops :: "RAGState \<Rightarrow> int" where
  "get_max_loops state = (case max_loops state of None \<Rightarrow> 3 | Some n \<Rightarrow> n)"

text \<open>The message of the \<open>AttributeError\<close> raised by \<open>.get\<close> on a character of a string.\<close>

definition str_has_no_get :: pystr where
  "str_has_no_get =
     [39] @ ascii ''str'' @ [39] @ ascii '' object has no attribute '' @ [39] @ ascii ''get'' @ [39]"

definition len_documents :: "documents_value \<Rightarrow> nat" where
  "len_documents docs = (case docs of DocList ds \<Rightarrow> length ds | DocStr s \<Rightarrow> length s)"

subsection \<open>retrieve_node\<close>

text \<open>
  The \<open>try\<close> block: \<open>Inl\<close> is the text of an exception that reaches the handler.
  After the tool has returned, a non-empty result is read at \<open>docs[0].get(...)\<close>;
  on a string \<open>docs[0]\<close> is a character and the read raises.
\<close>

definition retrieve_body ::
  "RAGState \<Rightarrow> (pystr \<Rightarrow> documents_value outcome) \<Rightarrow> pystr + Update" where
  "retrieve_body state retrieve_tool =
     (case retrieve_tool (question state) of
        Raises e \<Rightarrow> Inl e
      | Returns docs \<Rightarrow>
          (case docs of
             DocStr (c # cs) \<Rightarrow> Inl str_has_no_get
           | _ \<Rightarrow>
               Inr (no_update\<lparr>set_documents := Some docs,
                      add_messages :=
                        [HumanMessage (Text (ascii ''[RETRIEVE] Recovered '' @
                           str_nat (len_documents docs) @ ascii '' documents for: '' @
                           question state))]\<rparr>)))"

definition retrieve_node ::
  "RAGState \<Rightarrow> (pystr \<Rightarrow> documents_value outcome) \<Rightarrow> Update" where
  "retrieve_node state retrieve_tool =
     (case retrieve_body state retrieve_tool of
        Inr u \<Rightarrow> u
      | Inl e \<Rightarrow>
          no_update\<lparr>set_documents := Some (DocList []),
            add_messages := [AIMessage (Text ([10060] @ ascii '' Error en retrieve: '' @ e))]\<rparr>)"

text \<open>
  The tool as \<open>compile_rag_graph(llm, retrieve_documents)\<close> wires it: the call returns
  the string that \<open>retrieve_documents\<close> builds.
\<close>

definition wired_retrieve_tool ::
  "'f::linorder float_ops \<Rightarrow> (pystr \<Rightarrow> pystr) \<Rightarrow> (pystr \<Rightarrow> pystr) \<Rightarrow> CatalogDoc list \<Rightarrow>
   pystr \<Rightarrow> documents_value outcome" where
  "wired_retrieve_tool fl lower upper MOCK_DOCS query =
     Returns (DocStr (retrieve_documents fl lower upper MOCK_DOCS query))"

subsection \<open>grade_node\<close>

text \<open>
  A node that may query the oracle returns its result together with the prompts it
  sent, in order.
\<close>

definition grade_prompt :: "pystr \<Rightarrow> pystr \<Rightarrow> pystr \<Rightarrow> prompt" where
  "grade_prompt q doc_title doc_content =
     (ascii ''You are an expert evaluator. Your task is to assess document '' @
      ascii ''relevance. Given a user question and a document, determine if '' @
      ascii ''the document is relevant to answer the question. Respond with '' @
      ascii ''only '' @ [39] @ ascii ''yes'' @ [39] @ ascii '' or '' @ [39] @ ascii ''no'' @ [39] @
      ascii ''.'',
      ascii ''Question: '' @ q @ [10, 10] @
      ascii ''Document Title: '' @ doc_title @ [10, 10] @
      ascii ''Document Content:'' @ [10] @ doc_content @ [10, 10] @
      ascii ''Is this document relevant to the question? Answer with only '' @
      [39] @ ascii ''yes'' @ [39] @ ascii '' or '' @ [39] @ ascii ''no'' @ [39] @ ascii '':'')"

definition grade_body ::
  "(pystr \<Rightarrow> pystr) \<Rightarrow> RAGState \<Rightarrow> (prompt \<Rightarrow> pystr outcome) \<Rightarrow> (pystr + pystr) \<times> prompt list" where
  "grade_body lower state llm =
     (case documents state of
        DocList [] \<Rightarrow> (Inr (ascii ''generate''), [])
      | DocStr [] \<Rightarrow> (Inr (ascii ''generate''), [])
      | DocStr (c # cs) \<Rightarrow> (Inl str_has_no_get, [])
      | DocList (first_doc # rest) \<Rightarrow>
          let doc_content = take 500 (case content first_doc of None \<Rightarrow> [] | Some c \<Rightarrow> c);
              doc_title = (case title first_doc of None \<Rightarrow> ascii ''Unknown'' | Some t \<Rightarrow> t);
              p = grade_prompt (question state) doc_title doc_content
          in case llm p of
               Raises e \<Rightarrow> (Inl e, [p])
             | Returns response \<Rightarrow>
                 let grade_result = strip (lower response);
                     is_relevant = py_in (ascii ''yes'') grade_result
                 in (Inr (if is_relevant then ascii ''generate'' else ascii ''rewrite''), [p]))"

definition grade_node ::
  "(pystr \<Rightarrow> pystr) \<Rightarrow> RAGState \<Rightarrow> (prompt \<Rightarrow> pystr outcome) \<Rightarrow> pystr \<times> prompt list" where
  "grade_node lower state llm =
     (case grade_body lower state llm of
        (Inr decision, calls) \<Rightarrow> (decision, calls)
      | (Inl e, calls) \<Rightarrow> (ascii ''generate'', calls))"

subsection \<open>rewrite_node\<close>

definition rewrite_prompt :: "pystr \<Rightarrow> prompt" where
  "rewrite_prompt original_question =
     (ascii ''You are an expert at reformulating user questions for better '' @
      ascii ''document retrieval. Analyze the original question and rewrite '' @
      ascii ''it to be more specific, detailed, and likely to retrieve relevant '' @
      ascii ''documents. Keep the intent but improve specificity.'',
      ascii ''Original question: '' @ original_question @ [10, 10] @
      ascii ''Rewritten question (more specific and searchable):'')"

definition rewrite_body ::
  "RAGState \<Rightarrow> (prompt \<Rightarrow> pystr outcome) \<Rightarrow> (pystr + Update) \<times> prompt list" where
  "rewrite_body state llm =
     (let original_question = question state;
          current_loop = get_loop_count state;
          p = rewrite_prompt original_question
      in case llm p of
           Raises e \<Rightarrow> (Inl e, [p])
         | Returns response \<Rightarrow>
             let new_question = strip response
             in (Inr (no_update\<lparr>set_question := Some new_question,
                        set_loop_count := Some (current_loop + 1),
                        add_messages :=
                          [AIMessage (Text (ascii ''[REWRITE] Reformulated question: '' @
                             new_question))]\<rparr>), [p]))"

definition rewrite_node ::
  "RAGState \<Rightarrow> (prompt \<Rightarrow> pystr outcome) \<Rightarrow> Update \<times> prompt list" where
  "rewrite_node state llm =
     (case rewrite_body state llm of
        (Inr u, calls) \<Rightarrow> (u, calls)
      | (Inl e, calls) \<Rightarrow>
          (no_update\<lparr>set_loop_count := Some (get_loop_count state + 1),
             add_messages := [AIMessage (Text ([10060] @ ascii '' Error en rewrite: '' @ e))]\<rparr>,
           calls))"

subsection \<open>generate_node\<close>

definition no_documents_message :: pystr where
  "no_documents_message =
     ascii ''No pude encontrar documentos relevantes para tu pregunta. Por '' @
     ascii ''favor, intenta con una pregunta m'' @ [225] @ ascii ''s espec'' @ [237] @
     ascii ''fica o verifica que los documentos necesarios est'' @ [233] @
     ascii ''n cargados.''"

definition join :: "pystr \<Rightarrow> pystr list \<Rightarrow> pystr" where
  "join sep xs = (case xs of [] \<Rightarrow> [] | y # ys \<Rightarrow> y @ concat (map (\<lambda>z. sep @ z) ys))"

definition format_document :: "nat \<Rightarrow> Document \<Rightarrow> pystr" where
  "format_document i d =
     (let doc_title = (case title d of None \<Rightarrow> ascii ''Unknown'' | Some t \<Rightarrow> t);
          doc_content = (case content d of None \<Rightarrow> [] | Some c \<Rightarrow> c)
      in ascii ''[Documento '' @ str_nat i @ ascii '': '' @ doc_title @ ascii '']'' @ [10] @
         doc_content)"

definition generate_prompt :: "pystr \<Rightarrow> pystr \<Rightarrow> prompt" where
  "generate_prompt q combined_context =
     (ascii ''You are a helpful assistant that answers questions using provided '' @
      ascii ''documents. Your task is to:'' @ [10] @
      ascii ''1. Answer the question using ONLY the provided documents'' @ [10] @
      ascii ''2. Be concise and accurate'' @ [10] @
      ascii ''3. Cite which document you'' @ [39] @ ascii ''re using when relevant'' @ [10] @
      ascii ''4. If the documents don'' @ [39] @
      ascii ''t contain the answer, say so clearly'' @ [10] @
      ascii ''5. Format your response clearly with sections if needed'',
      ascii ''Question: '' @ q @ [10, 10] @
      ascii ''Documents:'' @ [10] @ combined_context @ [10, 10] @
      ascii ''Answer the question using only the above documents:'')"

definition generate_body ::
  "RAGState \<Rightarrow> (prompt \<Rightarrow> pystr outcome) \<Rightarrow> (pystr + Update) \<times> prompt list" where
  "generate_body state llm =
     (let no_docs =
            (Inr (no_update\<lparr>set_generation := Some no_documents_message,
                    add_messages :=
                      [AIMessage (Text (ascii ''[GENERATE] No documents available''))]\<rparr>), [])
      in case documents state of
           DocList [] \<Rightarrow> no_docs
         | DocStr [] \<Rightarrow> no_docs
         | DocStr (c # cs) \<Rightarrow> (Inl str_has_no_get, [])
         | DocList (d # ds) \<Rightarrow>
             let doc_contents =
                   map (\<lambda>(i, x). format_document i x) (enumerate 1 (take 5 (d # ds)));
                 combined_context = join ([10, 10] @ ascii ''---'' @ [10, 10]) doc_contents;
                 p = generate_prompt (question state) combined_context
             in case llm p of
                  Raises e \<Rightarrow> (Inl e, [p])
                | Returns response \<Rightarrow>
                    (Inr (no_update\<lparr>set_generation := Some (strip response),
                            add_messages :=
                              [AIMessage (Text (ascii ''[GENERATE] Generated answer from '' @
                                 str_nat (length (d # ds)) @ ascii '' documents''))]\<rparr>), [p]))"

definition generate_node ::
  "RAGState \<Rightarrow> (prompt \<Rightarrow> pystr outcome) \<Rightarrow> Update \<times> prompt list" where
  "generate_node state llm =
     (case generate_body state llm of
        (Inr u, calls) \<Rightarrow> (u, calls)
      | (Inl e, calls) \<Rightarrow>
          (no_update\<lparr>set_generation := Some (ascii ''Error generando respuesta: '' @ e),
             add_messages := [AIMessage (Text ([10060] @ ascii '' Error en generate: '' @ e))]\<rparr>,
           calls))"

subsection \<open>The conditional functions on the retry counter\<close>

definition should_rewrite :: "RAGState \<Rightarrow> pystr" where
  "should_rewrite state =
     (if get_loop_count state \<ge> get_max_loops state then ascii ''generate''
      else ascii ''generate'')"

definition should_continue_retrieve :: "RAGState \<Rightarrow> pystr" where
  "should_continue_retrieve state =
     (if get_loop_count state \<ge> get_max_loops state then ascii ''generate''
      else ascii ''retrieve'')"

subsection \<open>compile_rag_graph\<close>

text \<open>
  \<open>compile_rag_graph\<close> creates three \<open>StateGraph\<close> objects one after the other, each
  bound to the variable \<open>workflow\<close>, and compiles the last one.  A graph under
  construction is the list of its node names, its edges and its conditional edges; the
  function behind each name is the node function of the sections above, closed over
  \<open>llm\<close> and \<open>retrieve_tool\<close>.  Of the library's behaviour one fact matters on the path
  the function takes: \<open>StateGraph.add_node\<close> raises \<open>ValueError\<close> when the name is
  already a node of the graph.  The other calls record their arguments.
\<close>

record StateGraph =
  nodes :: "string list"
  edges :: "(string \<times> string) list"
  conditional_edges :: "(string \<times> (string \<times> string) list) list"

datatype graph_error = ValueError string

datatype builder_call =
  NewStateGraph
  | AddNode string
  | AddEdge string string
  | AddConditionalEdges string "(string \<times> string) list"

definition empty_graph :: StateGraph where
  "empty_graph = \<lparr>nodes = [], edges = [], conditional_edges = []\<rparr>"

definition builder_step :: "builder_call \<Rightarrow> StateGraph \<Rightarrow> graph_error + StateGraph" where
  "builder_step call workflow =
     (case call of
        NewStateGraph \<Rightarrow> Inr empty_graph
      | AddNode name \<Rightarrow>
          if name \<in> set (nodes workflow) then Inl (ValueError name)
          else Inr (workflow\<lparr>nodes := nodes workflow @ [name]\<rparr>)
      | AddEdge start_key end_key \<Rightarrow>
          Inr (workflow\<lparr>edges := edges workflow @ [(start_key, end_key)]\<rparr>)
      | AddConditionalEdges source path_map \<Rightarrow>
          Inr (workflow\<lparr>conditional_edges :=
                 conditional_edges workflow @ [(source, path_map)]\<rparr>))"

fun run_calls :: "builder_call list \<Rightarrow> StateGraph \<Rightarrow> graph_error + StateGraph" where
  "run_calls [] workflow = Inr workflow"
| "run_calls (call # calls) workflow =
     (case builder_step call workflow of
        Inl e \<Rightarrow> Inl e
      | Inr workflow' \<Rightarrow> run_calls calls workflow')"

text \<open>
  The calls of lines 475 to 504 (first graph), 541 to 579 (second graph) and 588 to 606
  (third graph), in the order of the source.  \<open>START\<close> and \<open>END\<close> are the library's
  names \<open>__start__\<close> and \<open>__end__\<close>.  The second graph receives the node \<open>retrieve\<close>
  at line 544 and again at line 563.
\<close>

definition first_graph_calls :: "builder_call list" where
  "first_graph_calls =
     [NewStateGraph,
      AddNode ''retrieve'', AddNode ''grade'', AddNode ''rewrite'', AddNode ''generate'',
      AddEdge ''__start__'' ''retrieve'',
      AddEdge ''retrieve'' ''grade'']"

definition second_graph_calls :: "builder_call list" where
  "second_graph_calls =
     [NewStateGraph,
      AddNode ''retrieve'',
      AddNode ''retrieve'', AddNode ''rewrite'', AddNode ''generate'',
      AddEdge ''__start__'' ''retrieve'',
      AddEdge ''retrieve'' ''grade'',
      AddConditionalEdges ''grade''
        [(''generate'', ''generate''), (''rewrite'', ''rewrite'')],
      AddEdge ''rewrite'' ''retrieve'',
      AddEdge ''generate'' ''__end__'']"

definition third_graph_calls :: "builder_call list" where
  "third_graph_calls =
     [NewStateGraph,
      AddNode ''retrieve'', AddNode ''rewrite'', AddNode ''generate'',
      AddEdge ''__start__'' ''retrieve'',
      AddConditionalEdges ''retrieve''
        [(''generate'', ''generate''), (''rewrite'', ''rewrite'')],
      AddEdge ''rewrite'' ''retrieve'',
      AddEdge ''generate'' ''__end__'']"

text \<open>
  The result of \<open>compile_rag_graph(llm, retrieve_tool)\<close>: the graph to compile, or the
  exception that ends the function before \<open>workflow.compile()\<close>.
\<close>

definition compile_rag_graph :: "graph_error + StateGraph" where
  "compile_rag_graph =
     run_calls (first_graph_calls @ second_graph_calls @ third_graph_calls) empty_graph"

subsection \<open>The graph of lines 588 to 606\<close>

text \<open>
  The third graph, taken by itself, has the nodes \<open>retrieve\<close>, \<open>rewrite\<close> and
  \<open>generate\<close>; an edge from the start to \<open>retrieve\<close>; after \<open>retrieve\<close> a conditional
  edge that calls \<open>grade_node\<close> on the updated state and goes to \<open>generate\<close> or to
  \<open>rewrite\<close>; an edge from \<open>rewrite\<close> to \<open>retrieve\<close>; an edge from \<open>generate\<close> to the
  end.  \<open>step\<close> is one node execution of that graph.  A configuration is the node to
  run next, the state, and the number of oracle calls made so far; \<open>oracle n\<close> answers
  call number \<open>n\<close>.
\<close>

datatype node = RETRIEVE | REWRITE | GENERATE | END

type_synonym config = "node \<times> RAGState \<times> nat"

definition step ::
  "(pystr \<Rightarrow> pystr) \<Rightarrow> (pystr \<Rightarrow> documents_value outcome) \<Rightarrow> (nat \<Rightarrow> prompt \<Rightarrow> pystr outcome) \<Rightarrow>
   config \<Rightarrow> config" where
  "step lower retrieve_tool oracle c =
     (case c of (n, state, calls) \<Rightarrow>
        (case n of
           RETRIEVE \<Rightarrow>
             let state' = apply_update state (retrieve_node state retrieve_tool);
                 (decision, ps) = grade_node lower state' (oracle calls)
             in (if decision = ascii ''generate'' then GENERATE else REWRITE,
                 state', calls + length ps)
         | REWRITE \<Rightarrow>
             let (u, ps) = rewrite_node state (oracle calls)
             in (RETRIEVE, apply_update state u, calls + length ps)
         | GENERATE \<Rightarrow>
             let (u, ps) = generate_node state (oracle calls)
             in (END, apply_update state u, calls + length ps)
         | END \<Rightarrow> (END, state, calls)))"

text \<open>
  A run of the third graph with a bound on the number of node executions: \<open>None\<close> when
  the bound is used up before the end is reached.
\<close>

fun invoke ::
  "nat \<Rightarrow> (pystr \<Rightarrow> pystr) \<Rightarrow> (pystr \<Rightarrow> documents_value outcome) \<Rightarrow>
   (nat \<Rightarrow> prompt \<Rightarrow> pystr outcome) \<Rightarrow> config \<Rightarrow> (RAGState \<times> nat) option" where
  "invoke fuel lower retrieve_tool oracle (END, state, calls) = Some (state, calls)"
| "invoke 0 lower retrieve_tool oracle c = None"
| "invoke (Suc fuel) lower retrieve_tool oracle c =
     invoke fuel lower retrieve_tool oracle (step lower retrieve_tool oracle c)"

text \<open>
  What a caller does: \<open>rag_graph = compile_rag_graph(llm, retrieve_tool)\<close> followed by
  \<open>rag_graph.invoke(rag_state)\<close>.  The exception of the first call ends the second
  before it starts.
\<close>

definition compile_and_invoke ::
  "nat \<Rightarrow> (pystr \<Rightarrow> pystr) \<Rightarrow> (pystr \<Rightarrow> documents_value outcome) \<Rightarrow>
   (nat \<Rightarrow> prompt \<Rightarrow> pystr outcome) \<Rightarrow> RAGState \<Rightarrow> graph_error + (RAGState \<times> nat) option" where
  "compile_and_invoke fuel lower retrieve_tool oracle rag_state =
     (case compile_rag_graph of
        Inl e \<Rightarrow> Inl e
      | Inr rag_graph \<Rightarrow> Inr (invoke fuel lower retrieve_tool oracle (RETRIEVE, rag_state, 0)))"

section \<open>Properties of the router\<close>

lemma py_in_sublist: "py_in kw t \<longleftrightarrow> sublist kw t"
  by (induction t) (auto simp: sublist_Cons_right)

lemma choose_context_last_maximal:
  "choose_context f h d dr =
     (let best = max (max dr f) (max h d)
      in if best = 0 then ascii ''general''
         else if d = best then ascii ''docs''
         else if h = best then ascii ''health''
         else if f = best then ascii ''finance''
         else ascii ''drive'')"
  by (auto simp: choose_context_def Let_def max_def)

lemma choose_context_in_categories:
  "choose_context f h d dr \<in>
     {ascii ''drive'', ascii ''finance'', ascii ''health'', ascii ''docs'', ascii ''general''}"
  by (simp add: choose_context_def)

text \<open>
  C4, on the code.  The two utterances that the repository's test expects to be routed
  to file-access (the questions "Donde estan mis archivos importantes?" and "Como
  descargo un archivo?", with their accents and opening question marks, written below
  by code point) contain one file-access keyword and one
  documents keyword (the same word, archivo) and none of finance or health.  The order
  file-access, finance, health, documents gives \<open>drive\<close> on that tie; the router
  returns \<open>docs\<close>.
\<close>

theorem router_tie_goes_to_docs:
  "(let importantes = [191] @ ascii ''D'' @ [243] @ ascii ''nde est'' @ [225] @
                      ascii ''n mis archivos importantes?'';
        descargo = [191] @ ascii ''C'' @ [243] @ ascii ''mo descargo un archivo?''
    in keyword_score finance_keywords (lower_latin1 importantes) = 0 \<and>
       keyword_score health_keywords (lower_latin1 importantes) = 0 \<and>
       keyword_score docs_keywords (lower_latin1 importantes) = 1 \<and>
       keyword_score drive_keywords (lower_latin1 importantes) = 1 \<and>
       router_node lower_latin1 \<lparr>messages = Some [HumanMessage (Text importantes)]\<rparr>
         = ascii ''docs'' \<and>
       keyword_score finance_keywords (lower_latin1 descargo) = 0 \<and>
       keyword_score health_keywords (lower_latin1 descargo) = 0 \<and>
       keyword_score docs_keywords (lower_latin1 descargo) = 1 \<and>
       keyword_score drive_keywords (lower_latin1 descargo) = 1 \<and>
       router_node lower_latin1 \<lparr>messages = Some [HumanMessage (Text descargo)]\<rparr>
         = ascii ''docs'' \<and>
       spec_choose_context 0 0 1 1 = ascii ''drive'')"
  by code_simp

text \<open>
  C10.  For every input state the router returns one of the five category tags and
  never raises: an empty message history gives \<open>general\<close>, and whenever the
  classification raises (the \<open>try\<close> block ends in an exception) the handler returns
  \<open>general\<close>.
\<close>

theorem router_total:
  "router_node lower state \<in>
     {ascii ''drive'', ascii ''finance'', ascii ''health'', ascii ''docs'', ascii ''general''} \<and>
   (messages state = Some [] \<longrightarrow> router_node lower state = ascii ''general'') \<and>
   (\<forall>e. router_body lower state = Inl e \<longrightarrow> router_node lower state = ascii ''general'')"
  using choose_context_in_categories
  by (auto simp: router_node_def router_body_def classify_def split: option.splits sum.splits)

theorem router_total_witness:
  "router_node lower_latin1 \<lparr>messages = Some []\<rparr> = ascii ''general'' \<and>
   router_body lower_latin1 \<lparr>messages = Some [HumanMessage (Blocks [])]\<rparr> = Inl AttributeError \<and>
   router_node lower_latin1 \<lparr>messages = Some [HumanMessage (Blocks [])]\<rparr> = ascii ''general''"
proof -
  have a: "messages \<lparr>messages = Some []\<rparr> = Some []"
    by simp
  have b: "router_body lower_latin1 \<lparr>messages = Some [HumanMessage (Blocks [])]\<rparr>
             = Inl AttributeError"
    by (simp add: router_body_def user_text_of_def)
  from a b
    router_total [of lower_latin1 "\<lparr>messages = Some []\<rparr>"]
    router_total [of lower_latin1 "\<lparr>messages = Some [HumanMessage (Blocks [])]\<rparr>"]
  show ?thesis by blast
qed

section \<open>Properties of the nodes of the retrieval loop\<close>

lemma sublist_dropWhile_space:
  assumes "kw \<noteq> []" "\<forall>c\<in>set kw. \<not> P c"
  shows "sublist kw (dropWhile P s) \<longleftrightarrow> sublist kw s"
proof (induction s)
  case Nil
  show ?case by simp
next
  case (Cons c cs)
  show ?case
  proof (cases "P c")
    case True
    from assms obtain k ks where kw: "kw = k # ks" and "\<not> P k"
      by (cases kw) auto
    with True have "\<not> prefix kw (c # cs)"
      by auto
    with True Cons show ?thesis
      by (simp add: sublist_Cons_right)
  next
    case False
    then show ?thesis by simp
  qed
qed

lemma sublist_strip:
  assumes "kw \<noteq> []" "\<forall>c\<in>set kw. \<not> is_space c"
  shows "sublist kw (strip s) \<longleftrightarrow> sublist kw s"
proof -
  have r: "rev kw \<noteq> []" "\<forall>c\<in>set (rev kw). \<not> is_space c"
    using assms by auto
  have "sublist kw (strip s) \<longleftrightarrow> sublist (rev kw) (dropWhile is_space (rev (dropWhile is_space s)))"
    unfolding strip_def by (simp add: sublist_rev_right)
  also have "\<dots> \<longleftrightarrow> sublist (rev kw) (rev (dropWhile is_space s))"
    by (rule sublist_dropWhile_space [OF r])
  also have "\<dots> \<longleftrightarrow> sublist kw (dropWhile is_space s)"
    by simp
  also have "\<dots> \<longleftrightarrow> sublist kw s"
    by (rule sublist_dropWhile_space [OF assms])
  finally show ?thesis .
qed

lemma yes_in_strip: "py_in (ascii ''yes'') (strip s) \<longleftrightarrow> sublist (ascii ''yes'') s"
proof -
  have "ascii ''yes'' \<noteq> []" "\<forall>c\<in>set (ascii ''yes''). \<not> is_space c"
    by (simp_all add: ascii_def is_space_def)
  then show ?thesis
    by (simp add: py_in_sublist sublist_strip)
qed

text \<open>
  C5.  For every state, the Grade step decides \<open>generate\<close> without an oracle call when
  the document list is empty.  Otherwise it sends exactly one prompt, built from the
  question, the title of the first document and the first 500 characters of its
  content; it decides \<open>generate\<close> when that call raises, \<open>generate\<close> when the
  lower-cased answer contains \<open>yes\<close>, and \<open>rewrite\<close> otherwise.
\<close>

theorem grade_node_decision:
  "(documents state = DocList [] \<longrightarrow> grade_node lower state llm = (ascii ''generate'', [])) \<and>
   (\<forall>first_doc rest. documents state = DocList (first_doc # rest) \<longrightarrow>
      (let p = grade_prompt (question state)
                 (case title first_doc of None \<Rightarrow> ascii ''Unknown'' | Some t \<Rightarrow> t)
                 (take 500 (case content first_doc of None \<Rightarrow> [] | Some c \<Rightarrow> c))
       in snd (grade_node lower state llm) = [p] \<and>
          (\<forall>e. llm p = Raises e \<longrightarrow> fst (grade_node lower state llm) = ascii ''generate'') \<and>
          (\<forall>answer. llm p = Returns answer \<longrightarrow>
             fst (grade_node lower state llm) =
               (if sublist (ascii ''yes'') (lower answer) then ascii ''generate''
                else ascii ''rewrite''))))"
  by (auto simp: grade_node_def grade_body_def Let_def yes_in_strip split: outcome.splits)

text \<open>
  C6.  For every state, the Rewrite step sends one prompt and adds exactly 1 to the
  retry counter; if the oracle call raises, the question is unchanged, and if it
  returns, the question becomes the trimmed answer.
\<close>

theorem rewrite_node_update:
  "(let p = rewrite_prompt (question state);
        state' = apply_update state (fst (rewrite_node state llm))
    in snd (rewrite_node state llm) = [p] \<and>
       get_loop_count state' = get_loop_count state + 1 \<and>
       (\<forall>e. llm p = Raises e \<longrightarrow> question state' = question state) \<and>
       (\<forall>answer. llm p = Returns answer \<longrightarrow> question state' = strip answer))"
  by (auto simp: rewrite_node_def rewrite_body_def Let_def apply_update_def no_update_def
      get_loop_count_def split: outcome.splits)

text \<open>
  C7.  The Generate step always yields a generation, never an exception.  With an
  empty document list the generation is the fixed "no documents" message, whatever
  the question, and no prompt is sent; when the oracle call raises, the generation is
  the text \<open>Error generando respuesta: \<close> followed by the text of the exception.
\<close>

theorem generate_node_fallbacks:
  "(\<exists>g. set_generation (fst (generate_node state llm)) = Some g) \<and>
   (documents state = DocList [] \<longrightarrow>
      snd (generate_node state llm) = [] \<and>
      generation (apply_update state (fst (generate_node state llm))) = no_documents_message) \<and>
   (\<forall>d ds e. documents state = DocList (d # ds) \<and>
      llm (generate_prompt (question state)
             (join ([10, 10] @ ascii ''---'' @ [10, 10])
                (map (\<lambda>(i, x). format_document i x) (enumerate 1 (take 5 (d # ds)))))) = Raises e \<longrightarrow>
      generation (apply_update state (fst (generate_node state llm))) =
        ascii ''Error generando respuesta: '' @ e)"
  by (auto simp: generate_node_def generate_body_def Let_def apply_update_def no_update_def
      split: outcome.splits documents_value.splits list.splits)


theorem grade_node_decision_witness:
  "grade_node lower_latin1 (create_initial_rag_state (ascii ''seguro'') 3)
     (\<lambda>p. Returns (ascii ''No'')) = (ascii ''generate'', []) \<and>
   fst (grade_node lower_latin1
     ((create_initial_rag_state (ascii ''seguro'') 3)
        \<lparr>documents := DocList [\<lparr>title = Some (ascii ''Auto''), content = Some (ascii ''Deducible'')\<rparr>]\<rparr>)
     (\<lambda>p. Returns (ascii ''No, not relevant.''))) = ascii ''rewrite'' \<and>
   fst (grade_node lower_latin1
     ((create_initial_rag_state (ascii ''seguro'') 3)
        \<lparr>documents := DocList [\<lparr>title = Some (ascii ''Auto''), content = Some (ascii ''Deducible'')\<rparr>]\<rparr>)
     (\<lambda>p. Returns (ascii ''Yes''))) = ascii ''generate'' \<and>
   fst (grade_node lower_latin1
     ((create_initial_rag_state (ascii ''seguro'') 3)
        \<lparr>documents := DocList [\<lparr>title = Some (ascii ''Auto''), content = Some (ascii ''Deducible'')\<rparr>]\<rparr>)
     (\<lambda>p. Raises (ascii ''timeout''))) = ascii ''generate''"
proof -
  let ?s0 = "create_initial_rag_state (ascii ''seguro'') 3"
  let ?d = "\<lparr>title = Some (ascii ''Auto''), content = Some (ascii ''Deducible'')\<rparr>"
  let ?s1 = "?s0\<lparr>documents := DocList [?d]\<rparr>"
  have e: "documents ?s0 = DocList []"
    by (simp add: create_initial_rag_state_def)
  have d: "documents ?s1 = DocList [?d]"
    by simp
  have no: "\<not> sublist (ascii ''yes'') (lower_latin1 (ascii ''No, not relevant.''))"
    unfolding py_in_sublist [symmetric] by code_simp
  have yes: "sublist (ascii ''yes'') (lower_latin1 (ascii ''Yes''))"
    unfolding py_in_sublist [symmetric] by code_simp
  from e grade_node_decision [of ?s0 lower_latin1 "\<lambda>p. Returns (ascii ''No'')"]
  have 1: "grade_node lower_latin1 ?s0 (\<lambda>p. Returns (ascii ''No'')) = (ascii ''generate'', [])"
    by blast
  from d no grade_node_decision [of ?s1 lower_latin1 "\<lambda>p. Returns (ascii ''No, not relevant.'')"]
  have 2: "fst (grade_node lower_latin1 ?s1 (\<lambda>p. Returns (ascii ''No, not relevant.'')))
             = ascii ''rewrite''"
    by (simp add: Let_def)
  from d yes grade_node_decision [of ?s1 lower_latin1 "\<lambda>p. Returns (ascii ''Yes'')"]
  have 3: "fst (grade_node lower_latin1 ?s1 (\<lambda>p. Returns (ascii ''Yes''))) = ascii ''generate''"
    by (simp add: Let_def)
  from d grade_node_decision [of ?s1 lower_latin1 "\<lambda>p. Raises (ascii ''timeout'')"]
  have 4: "fst (grade_node lower_latin1 ?s1 (\<lambda>p. Raises (ascii ''timeout''))) = ascii ''generate''"
    by (simp add: Let_def)
  from 1 2 3 4 show ?thesis by blast
qed

theorem rewrite_node_update_witness:
  "question (apply_update (create_initial_rag_state (ascii ''seguro'') 3)
      (fst (rewrite_node (create_initial_rag_state (ascii ''seguro'') 3)
         (\<lambda>p. Raises (ascii ''timeout''))))) = ascii ''seguro'' \<and>
   get_loop_count (apply_update (create_initial_rag_state (ascii ''seguro'') 3)
      (fst (rewrite_node (create_initial_rag_state (ascii ''seguro'') 3)
         (\<lambda>p. Raises (ascii ''timeout''))))) = 1 \<and>
   question (apply_update (create_initial_rag_state (ascii ''seguro'') 3)
      (fst (rewrite_node (create_initial_rag_state (ascii ''seguro'') 3)
         (\<lambda>p. Returns (ascii '' seguro de auto ''))))) = ascii ''seguro de auto'' \<and>
   get_loop_count (apply_update (create_initial_rag_state (ascii ''seguro'') 3)
      (fst (rewrite_node (create_initial_rag_state (ascii ''seguro'') 3)
         (\<lambda>p. Returns (ascii '' seguro de auto ''))))) = 1"
proof -
  let ?s0 = "create_initial_rag_state (ascii ''seguro'') 3"
  have q: "question ?s0 = ascii ''seguro''" and l: "get_loop_count ?s0 = 0"
    by (simp_all add: create_initial_rag_state_def get_loop_count_def)
  have s: "strip (ascii '' seguro de auto '') = ascii ''seguro de auto''"
    by code_simp
  from q l rewrite_node_update [of ?s0 "\<lambda>p. Raises (ascii ''timeout'')"]
  have 1: "question (apply_update ?s0 (fst (rewrite_node ?s0 (\<lambda>p. Raises (ascii ''timeout'')))))
             = ascii ''seguro'' \<and>
           get_loop_count (apply_update ?s0 (fst (rewrite_node ?s0 (\<lambda>p. Raises (ascii ''timeout'')))))
             = 1"
    by (simp add: Let_def)
  from s l rewrite_node_update [of ?s0 "\<lambda>p. Returns (ascii '' seguro de auto '')"]
  have 2: "question (apply_update ?s0
              (fst (rewrite_node ?s0 (\<lambda>p. Returns (ascii '' seguro de auto '')))))
             = ascii ''seguro de auto'' \<and>
           get_loop_count (apply_update ?s0
              (fst (rewrite_node ?s0 (\<lambda>p. Returns (ascii '' seguro de auto '')))))
             = 1"
    by (simp add: Let_def)
  from 1 2 show ?thesis by blast
qed

theorem generate_node_fallbacks_witness:
  "generation (apply_update (create_initial_rag_state (ascii ''seguro'') 3)
      (fst (generate_node (create_initial_rag_state (ascii ''seguro'') 3)
         (\<lambda>p. Returns (ascii ''ok''))))) = no_documents_message \<and>
   generation (apply_update
      ((create_initial_rag_state (ascii ''seguro'') 3)
         \<lparr>documents := DocList [\<lparr>title = Some (ascii ''Auto''), content = Some (ascii ''Deducible'')\<rparr>]\<rparr>)
      (fst (generate_node
         ((create_initial_rag_state (ascii ''seguro'') 3)
            \<lparr>documents := DocList [\<lparr>title = Some (ascii ''Auto''), content = Some (ascii ''Deducible'')\<rparr>]\<rparr>)
         (\<lambda>p. Raises (ascii ''timeout''))))) = ascii ''Error generando respuesta: timeout''"
proof -
  let ?s0 = "create_initial_rag_state (ascii ''seguro'') 3"
  let ?d = "\<lparr>title = Some (ascii ''Auto''), content = Some (ascii ''Deducible'')\<rparr>"
  let ?s1 = "?s0\<lparr>documents := DocList [?d]\<rparr>"
  have e: "documents ?s0 = DocList []"
    by (simp add: create_initial_rag_state_def)
  have d: "documents ?s1 = DocList [?d]"
    by simp
  have a: "ascii ''Error generando respuesta: '' @ ascii ''timeout''
             = ascii ''Error generando respuesta: timeout''"
    by (simp add: ascii_def)
  from e generate_node_fallbacks [of ?s0 "\<lambda>p. Returns (ascii ''ok'')"]
  have 1: "generation (apply_update ?s0 (fst (generate_node ?s0 (\<lambda>p. Returns (ascii ''ok'')))))
             = no_documents_message"
    by blast
  from d generate_node_fallbacks [of ?s1 "\<lambda>p. Raises (ascii ''timeout'')"]
  have "generation (apply_update ?s1 (fst (generate_node ?s1 (\<lambda>p. Raises (ascii ''timeout'')))))
          = ascii ''Error generando respuesta: '' @ ascii ''timeout''"
    by blast
  with a 1 show ?thesis by simp
qed

lemma retrieve_documents_nonempty:
  "retrieve_documents fl lower upper MOCK_DOCS query \<noteq> []"
  by (simp add: retrieve_documents_def Let_def)

text \<open>
  C3.  Whenever the retrieval tool returns a non-empty string, \<open>retrieve_node\<close> takes
  its exception branch (the read \<open>docs[0].get\<close> raises) and returns an empty document
  list with an error message.  The wired tool \<open>retrieve_documents\<close> returns a
  non-empty string on every input, so the documents stored by the Retrieve node of the
  wired graph are always the empty list.
\<close>

theorem retrieve_node_on_string:
  "(\<forall>c cs. retrieve_tool (question state) = Returns (DocStr (c # cs)) \<longrightarrow>
      retrieve_body state retrieve_tool = Inl str_has_no_get \<and>
      retrieve_node state retrieve_tool =
        no_update\<lparr>set_documents := Some (DocList []),
          add_messages :=
            [AIMessage (Text ([10060] @ ascii '' Error en retrieve: '' @ str_has_no_get))]\<rparr>) \<and>
   retrieve_documents fl lower upper MOCK_DOCS query \<noteq> [] \<and>
   documents (apply_update state
      (retrieve_node state (wired_retrieve_tool fl lower upper MOCK_DOCS))) = DocList []"
proof -
  obtain c cs where "retrieve_documents fl lower upper MOCK_DOCS (question state) = c # cs"
    using retrieve_documents_nonempty [of fl lower upper MOCK_DOCS "question state"]
    by (cases "retrieve_documents fl lower upper MOCK_DOCS (question state)") auto
  then have "documents (apply_update state
      (retrieve_node state (wired_retrieve_tool fl lower upper MOCK_DOCS))) = DocList []"
    by (simp add: retrieve_node_def retrieve_body_def wired_retrieve_tool_def apply_update_def
        no_update_def)
  then show ?thesis
    by (simp add: retrieve_node_def retrieve_body_def retrieve_documents_nonempty)
qed

theorem retrieve_node_on_string_witness:
  "retrieve_node (create_initial_rag_state (ascii ''seguro'') 3)
     (\<lambda>q. Returns (DocStr (ascii ''Found 1 document(s)''))) =
     no_update\<lparr>set_documents := Some (DocList []),
       add_messages :=
         [AIMessage (Text ([10060] @ ascii '' Error en retrieve: '' @ str_has_no_get))]\<rparr>"
proof -
  have "\<exists>c cs. (\<lambda>q. Returns (DocStr (ascii ''Found 1 document(s)'')))
                  (question (create_initial_rag_state (ascii ''seguro'') 3))
               = Returns (DocStr (c # cs))"
    by (simp add: ascii_def)
  with retrieve_node_on_string [of "\<lambda>q. Returns (DocStr (ascii ''Found 1 document(s)''))"
      "create_initial_rag_state (ascii ''seguro'') 3"]
  show ?thesis by blast
qed

section \<open>compile_rag_graph and the runs of the third graph\<close>

lemma first_graph_runs:
  "run_calls first_graph_calls w = Inr
     \<lparr>nodes = [''retrieve'', ''grade'', ''rewrite'', ''generate''],
      edges = [(''__start__'', ''retrieve''), (''retrieve'', ''grade'')],
      conditional_edges = []\<rparr>"
  by (simp add: first_graph_calls_def builder_step_def empty_graph_def)

lemma second_graph_raises:
  "run_calls second_graph_calls w = Inl (ValueError ''retrieve'')"
  by (simp add: second_graph_calls_def builder_step_def empty_graph_def)

lemma third_graph_alone:
  "run_calls third_graph_calls w = Inr
     \<lparr>nodes = [''retrieve'', ''rewrite'', ''generate''],
      edges = [(''__start__'', ''retrieve''), (''rewrite'', ''retrieve''),
               (''generate'', ''__end__'')],
      conditional_edges =
        [(''retrieve'', [(''generate'', ''generate''), (''rewrite'', ''rewrite'')])]\<rparr>"
  by (simp add: third_graph_calls_def builder_step_def empty_graph_def)

lemma run_calls_append:
  "run_calls (xs @ ys) w =
     (case run_calls xs w of Inl e \<Rightarrow> Inl e | Inr w' \<Rightarrow> run_calls ys w')"
  by (induction xs arbitrary: w) (auto split: sum.splits)

lemma compile_rag_graph_raises: "compile_rag_graph = Inl (ValueError ''retrieve'')"
  by (simp add: compile_rag_graph_def run_calls_append first_graph_runs second_graph_raises)

text \<open>
  C2, on the code.  For every tool, oracle, initial state and bound, compiling the
  graph and invoking it ends in the \<open>ValueError\<close> of the second
  \<open>add_node("retrieve")\<close>: the third graph is never built, no node is executed and
  \<open>generate\<close> is never reached.
\<close>

theorem loop_never_runs:
  "compile_and_invoke fuel lower retrieve_tool oracle rag_state = Inl (ValueError ''retrieve'')"
  by (simp add: compile_and_invoke_def compile_rag_graph_raises)

lemma get_max_loops_apply_update [simp]:
  "get_max_loops (apply_update state u) = get_max_loops state"
  by (simp add: get_max_loops_def apply_update_def)




lemma max_loops_apply_update [simp]: "max_loops (apply_update state u) = max_loops state"
  by (simp add: apply_update_def)






subsection \<open>The retry counter is not read by the third graph\<close>

text \<open>
  No caller passes a tool that returns a list of documents.  With such a tool and an
  oracle that answers "no" to every prompt, the third graph alternates \<open>retrieve\<close> and
  \<open>rewrite\<close> for any number of node executions, and the counter passes the limit:
  \<open>should_continue_retrieve\<close> and \<open>should_rewrite\<close> are not part of any graph.
\<close>

lemma grade_rewrite:
  assumes "documents state = DocList (d # ds)"
    and "llm (grade_prompt (question state)
                (case title d of None \<Rightarrow> ascii ''Unknown'' | Some t \<Rightarrow> t)
                (take 500 (case content d of None \<Rightarrow> [] | Some c \<Rightarrow> c))) = Returns (ascii ''no'')"
  shows "grade_node lower_latin1 state llm =
     (ascii ''rewrite'', [grade_prompt (question state)
                (case title d of None \<Rightarrow> ascii ''Unknown'' | Some t \<Rightarrow> t)
                (take 500 (case content d of None \<Rightarrow> [] | Some c \<Rightarrow> c))])"
proof -
  have "\<not> py_in (ascii ''yes'') (strip (lower_latin1 (ascii ''no'')))"
    by code_simp
  with assms show ?thesis
    by (simp add: grade_node_def grade_body_def Let_def)
qed

lemma step_retrieve_always_no:
  "\<exists>state' calls'.
     step lower_latin1 (\<lambda>q. Returns (DocList [d])) (\<lambda>n p. Returns (ascii ''no''))
       (RETRIEVE, state, calls) = (REWRITE, state', calls') \<and>
     get_loop_count state' = get_loop_count state \<and>
     get_max_loops state' = get_max_loops state"
proof -
  let ?s = "apply_update state (retrieve_node state (\<lambda>q. Returns (DocList [d])))"
  have "documents ?s = DocList [d]"
    by (simp add: retrieve_node_def retrieve_body_def apply_update_def no_update_def)
  then have "fst (grade_node lower_latin1 ?s (\<lambda>p. Returns (ascii ''no''))) = ascii ''rewrite''"
    by (simp add: grade_rewrite)
  moreover have "ascii ''rewrite'' \<noteq> ascii ''generate''"
    by (simp add: ascii_def)
  moreover have "get_loop_count ?s = get_loop_count state"
    by (simp add: retrieve_node_def retrieve_body_def apply_update_def no_update_def
        get_loop_count_def)
  ultimately show ?thesis
    by (simp add: step_def Let_def split_beta)
qed

lemma step_rewrite:
  "\<exists>state' calls'.
     step lower retrieve_tool oracle (REWRITE, state, calls) = (RETRIEVE, state', calls') \<and>
     get_loop_count state' = get_loop_count state + 1 \<and>
     get_max_loops state' = get_max_loops state"
proof -
  have "get_loop_count (apply_update state (fst (rewrite_node state (oracle calls))))
          = get_loop_count state + 1"
    by (auto simp: rewrite_node_def rewrite_body_def Let_def apply_update_def no_update_def
        get_loop_count_def split: outcome.splits)
  then show ?thesis
    by (simp add: step_def Let_def split_beta)
qed

lemma invoke_always_no:
  "n = RETRIEVE \<or> n = REWRITE \<Longrightarrow>
   invoke fuel lower_latin1 (\<lambda>q. Returns (DocList [d])) (\<lambda>n p. Returns (ascii ''no''))
     (n, state, calls) = None"
proof (induction fuel arbitrary: n state calls)
  case 0
  then show ?case by auto
next
  case (Suc fuel)
  from Suc.prems show ?case
  proof
    assume n: "n = RETRIEVE"
    obtain s' c' where "step lower_latin1 (\<lambda>q. Returns (DocList [d])) (\<lambda>n p. Returns (ascii ''no''))
       (RETRIEVE, state, calls) = (REWRITE, s', c')"
      using step_retrieve_always_no by blast
    with n Suc.IH [of REWRITE s' c'] show ?thesis by simp
  next
    assume n: "n = REWRITE"
    obtain s' c' where "step lower_latin1 (\<lambda>q. Returns (DocList [d])) (\<lambda>n p. Returns (ascii ''no''))
       (REWRITE, state, calls) = (RETRIEVE, s', c')"
      using step_rewrite by blast
    with n Suc.IH [of RETRIEVE s' c'] show ?thesis by simp
  qed
qed

lemma always_rewrite_never_generates:
  "invoke fuel lower_latin1
     (\<lambda>q. Returns (DocList [\<lparr>title = Some (ascii ''Auto''), content = Some (ascii ''Deducible'')\<rparr>]))
     (\<lambda>n p. Returns (ascii ''no''))
     (RETRIEVE, create_initial_rag_state (ascii ''seguro'') 1, 0) = None"
  by (simp add: invoke_always_no)

lemma retry_limit_not_enforced:
  "(let run = step lower_latin1
        (\<lambda>q. Returns (DocList [\<lparr>title = Some (ascii ''Auto''), content = Some (ascii ''Deducible'')\<rparr>]))
        (\<lambda>n p. Returns (ascii ''no''));
        at_limit = run (run (run (RETRIEVE, create_initial_rag_state (ascii ''seguro'') 1, 0)));
        after = run at_limit
    in get_max_loops (fst (snd at_limit)) = 1 \<and>
       get_loop_count (fst (snd at_limit)) = 1 \<and>
       should_continue_retrieve (fst (snd at_limit)) = ascii ''generate'' \<and>
       fst at_limit = REWRITE \<and>
       get_max_loops (fst (snd after)) = 1 \<and>
       get_loop_count (fst (snd after)) = 2)"
proof -
  let ?run = "step lower_latin1
        (\<lambda>q. Returns (DocList [\<lparr>title = Some (ascii ''Auto''), content = Some (ascii ''Deducible'')\<rparr>]))
        (\<lambda>n p. Returns (ascii ''no''))"
  let ?s0 = "create_initial_rag_state (ascii ''seguro'') 1"
  have s0: "get_loop_count ?s0 = 0" "get_max_loops ?s0 = 1"
    by (simp_all add: create_initial_rag_state_def get_loop_count_def get_max_loops_def)
  obtain s1 k1 where c1: "?run (RETRIEVE, ?s0, 0) = (REWRITE, s1, k1)"
    and s1: "get_loop_count s1 = get_loop_count ?s0" "get_max_loops s1 = get_max_loops ?s0"
    using step_retrieve_always_no by blast
  obtain s2 k2 where c2: "?run (REWRITE, s1, k1) = (RETRIEVE, s2, k2)"
    and s2: "get_loop_count s2 = get_loop_count s1 + 1" "get_max_loops s2 = get_max_loops s1"
    using step_rewrite by blast
  obtain s3 k3 where c3: "?run (RETRIEVE, s2, k2) = (REWRITE, s3, k3)"
    and s3: "get_loop_count s3 = get_loop_count s2" "get_max_loops s3 = get_max_loops s2"
    using step_retrieve_always_no by blast
  obtain s4 k4 where c4: "?run (REWRITE, s3, k3) = (RETRIEVE, s4, k4)"
    and s4: "get_loop_count s4 = get_loop_count s3 + 1" "get_max_loops s4 = get_max_loops s3"
    using step_rewrite by blast
  have "should_continue_retrieve s3 = ascii ''generate''"
    using s0 s1 s2 s3 by (simp add: should_continue_retrieve_def)
  with s0 s1 s2 s3 s4 show ?thesis
    unfolding Let_def c1 c2 c3 c4 by simp
qed

section \<open>Properties of the document search\<close>

lemma mset_insert_desc: "mset (insert_desc x ys) = add_mset x (mset ys)"
  by (induction ys) auto

lemma set_insert_desc: "set (insert_desc x ys) = insert x (set ys)"
  by (induction ys) auto

lemma sorted_insert_desc:
  "sorted_wrt (\<lambda>a b. score b \<le> score a) ys \<Longrightarrow>
   sorted_wrt (\<lambda>a b. score b \<le> score a) (insert_desc x ys)"
  by (induction ys) (auto simp: set_insert_desc)

lemma mset_sort_desc: "mset (sort_desc xs) = mset xs"
  by (induction xs) (auto simp: sort_desc_def mset_insert_desc)

lemma sorted_sort_desc: "sorted_wrt (\<lambda>a b. score b \<le> score a) (sort_desc xs)"
  by (induction xs) (auto simp: sort_desc_def sorted_insert_desc)

lemma filter_insert_desc:
  "filter (\<lambda>r. score r = v) (insert_desc x ys) = filter (\<lambda>r. score r = v) (x # ys)"
  by (induction ys) auto

lemma sort_desc_stable:
  "filter (\<lambda>r. score r = v) (sort_desc xs) = filter (\<lambda>r. score r = v) xs"
proof (induction xs)
  case Nil
  show ?case by (simp add: sort_desc_def)
next
  case (Cons x xs)
  have "sort_desc (x # xs) = insert_desc x (sort_desc xs)"
    by (simp add: sort_desc_def)
  with Cons show ?case
    by (simp add: filter_insert_desc)
qed

lemma fold_phase1_step:
  "fold (phase1_step fl lower query keywords) ds acc =
     acc @ map (\<lambda>d. \<lparr>doc = d,
                      score = fadd fl (fmul fl (float_of fl (tag_matches lower keywords d))
                                              (float_of fl (6 / 10)))
                                (fmul fl (ratio fl (lower query) (lower (take 300 (entry_content d))))
                                         (float_of fl (4 / 10))),
                      reason = ascii ''tag_match''\<rparr>)
             (filter (\<lambda>d. 0 < tag_matches lower keywords d) ds)"
  by (induction ds arbitrary: acc)
     (auto simp: phase1_step_def Let_def calculate_similarity_def)

lemma fold_phase2_step:
  assumes "distinct (map entry_id ds)"
  shows "fold (phase2_step fl lower query) ds acc =
     acc @ map (\<lambda>d. \<lparr>doc = d, score = ratio fl (lower query) (lower (entry_content d)),
                      reason = ascii ''content_match''\<rparr>)
             (filter (\<lambda>d. entry_id d \<notin> (\<lambda>r. entry_id (doc r)) ` set acc \<and>
                          float_of fl (15 / 100) < ratio fl (lower query) (lower (entry_content d))) ds)"
  using assms
proof (induction ds arbitrary: acc)
  case Nil
  show ?case by simp
next
  case (Cons d ds)
  let ?mk = "\<lambda>d. \<lparr>doc = d, score = ratio fl (lower query) (lower (entry_content d)),
                      reason = ascii ''content_match''\<rparr>"
  let ?thr = "\<lambda>d. float_of fl (15 / 100) < ratio fl (lower query) (lower (entry_content d))"
  from Cons.prems have dist: "distinct (map entry_id ds)" and fresh: "entry_id d \<notin> entry_id ` set ds"
    by auto
  show ?case
  proof (cases "entry_id d \<notin> (\<lambda>r. entry_id (doc r)) ` set acc \<and> ?thr d")
    case True
    then have st: "phase2_step fl lower query d acc = acc @ [?mk d]"
      by (force simp: phase2_step_def list_ex_iff calculate_similarity_def)
    have ne: "entry_id x \<noteq> entry_id d" if "x \<in> set ds" for x
      using that fresh by (metis imageI)
    have "filter (\<lambda>x. entry_id x \<notin> (\<lambda>r. entry_id (doc r)) ` set (acc @ [?mk d]) \<and> ?thr x) ds
            = filter (\<lambda>x. entry_id x \<notin> (\<lambda>r. entry_id (doc r)) ` set acc \<and> ?thr x) ds"
      by (rule filter_cong) (simp_all add: ne)
    with True st Cons.IH [OF dist, of "acc @ [?mk d]"] show ?thesis
      by simp
  next
    case False
    then have st: "phase2_step fl lower query d acc = acc"
      by (auto simp: phase2_step_def list_ex_iff calculate_similarity_def)
    with False Cons.IH [OF dist, of acc] show ?thesis
      by auto
  qed
qed

lemma fold_plus_sum_list:
  "fold (\<lambda>k (total::rat). total + w k) ks a = a + sum_list (map w ks)"
  by (induction ks arbitrary: a) (auto simp: algebra_simps)

lemma sum_keyword_weight:
  "sum_list (map (keyword_weight tags t c) ks) =
     2 * of_nat (length (filter (\<lambda>k. k \<in> set tags) ks)) +
     1 * of_nat (length (filter (\<lambda>k. k \<notin> set tags \<and> (\<exists>tag\<in>set tags. sublist k tag)) ks)) +
     3 / 2 * of_nat (length (filter (\<lambda>k. k \<notin> set tags \<and> \<not> (\<exists>tag\<in>set tags. sublist k tag) \<and>
                                        sublist k t) ks)) +
     1 * of_nat (length (filter (\<lambda>k. k \<notin> set tags \<and> \<not> (\<exists>tag\<in>set tags. sublist k tag) \<and>
                                    \<not> sublist k t \<and> sublist k c) ks))"
  by (induction ks)
     (simp_all add: keyword_weight_def list_ex_iff py_in_sublist algebra_simps)

lemma tag_matches_weights:
  "tag_matches lower keywords d =
     (let tags = map lower (entry_tags d);
          exact = (\<lambda>k. k \<in> set tags);
          partial = (\<lambda>k. \<exists>tag\<in>set tags. sublist k tag);
          in_title = (\<lambda>k. sublist k (lower (entry_title d)));
          in_category = (\<lambda>k. sublist k (lower (entry_category d)))
      in 2 * of_nat (length (filter exact keywords)) +
         1 * of_nat (length (filter (\<lambda>k. \<not> exact k \<and> partial k) keywords)) +
         3 / 2 * of_nat (length (filter (\<lambda>k. \<not> exact k \<and> \<not> partial k \<and> in_title k) keywords)) +
         1 * of_nat (length (filter (\<lambda>k. \<not> exact k \<and> \<not> partial k \<and> \<not> in_title k \<and> in_category k)
                                keywords)))"
  unfolding Let_def tag_matches_def fold_plus_sum_list sum_keyword_weight
  by simp


lemma phase1_eq:
  "phase1 fl lower MOCK_DOCS query =
     map (\<lambda>d. \<lparr>doc = d,
                 score = fadd fl (fmul fl (float_of fl (tag_matches lower (split (lower query)) d))
                                         (float_of fl (6 / 10)))
                           (fmul fl (ratio fl (lower query) (lower (take 300 (entry_content d))))
                                    (float_of fl (4 / 10))),
                 reason = ascii ''tag_match''\<rparr>)
        (filter (\<lambda>d. 0 < tag_matches lower (split (lower query)) d) MOCK_DOCS)"
  by (simp add: phase1_def fold_phase1_step)

lemma phase2_after_phase1:
  assumes "distinct (map entry_id MOCK_DOCS)"
  shows "fold (phase2_step fl lower query) MOCK_DOCS (phase1 fl lower MOCK_DOCS query) =
     phase1 fl lower MOCK_DOCS query @
     map (\<lambda>d. \<lparr>doc = d, score = ratio fl (lower query) (lower (entry_content d)),
                 reason = ascii ''content_match''\<rparr>)
        (filter (\<lambda>d. \<not> 0 < tag_matches lower (split (lower query)) d \<and>
                     float_of fl (15 / 100) < ratio fl (lower query) (lower (entry_content d)))
           MOCK_DOCS)"
proof -
  let ?tm = "tag_matches lower (split (lower query))"
  have inj: "inj_on entry_id (set MOCK_DOCS)"
    using assms by (simp add: distinct_map)
  have ids: "(\<lambda>r. entry_id (doc r)) ` set (phase1 fl lower MOCK_DOCS query)
               = entry_id ` {d \<in> set MOCK_DOCS. 0 < ?tm d}"
    unfolding phase1_eq by (auto simp: image_iff)
  have mem: "entry_id d \<in> entry_id ` {d \<in> set MOCK_DOCS. 0 < ?tm d} \<longleftrightarrow> 0 < ?tm d"
    if "d \<in> set MOCK_DOCS" for d
  proof
    assume "entry_id d \<in> entry_id ` {d \<in> set MOCK_DOCS. 0 < ?tm d}"
    then obtain d' where "d' \<in> set MOCK_DOCS" "0 < ?tm d'" "entry_id d = entry_id d'"
      by auto
    with inj that show "0 < ?tm d"
      by (auto dest: inj_onD)
  next
    assume "0 < ?tm d"
    with that show "entry_id d \<in> entry_id ` {d \<in> set MOCK_DOCS. 0 < ?tm d}"
      by auto
  qed
  have "filter (\<lambda>d. entry_id d \<notin> (\<lambda>r. entry_id (doc r)) ` set (phase1 fl lower MOCK_DOCS query) \<and>
                    float_of fl (15 / 100) < ratio fl (lower query) (lower (entry_content d))) MOCK_DOCS
        = filter (\<lambda>d. \<not> 0 < ?tm d \<and>
                    float_of fl (15 / 100) < ratio fl (lower query) (lower (entry_content d))) MOCK_DOCS"
    unfolding ids by (rule filter_cong) (simp_all add: mem)
  then show ?thesis
    by (simp add: fold_phase2_step [OF assms])
qed

text \<open>
  C8.  For every query and every catalog with distinct identifiers (the ids of
  \<open>MOCK_DOCS\<close> are 1 to 7), with \<open>top_k\<close> not negative:  phase 1 gives an entry to
  each document whose keyword score is positive, the keyword score being 2 for each
  query word that is a tag, 1 for each that is only part of a tag, 1.5 for each that
  otherwise occurs in the title and 1 for each that otherwise occurs in the category;
  the entry's score is 0.6 times the keyword score plus 0.4 times the similarity ratio
  of the query and the first 300 characters of the content.  Phase 2 runs only when
  phase 1 gave fewer than \<open>top_k\<close> entries and adds each other document whose
  whole-content ratio exceeds 0.15, scored by that ratio.  The result is the combined
  list sorted by descending score (a permutation of it), cut to \<open>top_k\<close> entries.
\<close>

theorem search_documents_two_phase:
  assumes "distinct (map entry_id MOCK_DOCS)" and "0 \<le> top_k"
  shows "(let keywords = split (lower query);
              sim300 = (\<lambda>d. ratio fl (lower query) (lower (take 300 (entry_content d))));
              sim = (\<lambda>d. ratio fl (lower query) (lower (entry_content d)));
              found1 = map (\<lambda>d. \<lparr>doc = d,
                                   score = fadd fl (fmul fl (float_of fl (tag_matches lower keywords d))
                                                           (float_of fl (6 / 10)))
                                             (fmul fl (sim300 d) (float_of fl (4 / 10))),
                                   reason = ascii ''tag_match''\<rparr>)
                         (filter (\<lambda>d. 0 < tag_matches lower keywords d) MOCK_DOCS);
              found2 = (if int (length found1) < top_k
                        then map (\<lambda>d. \<lparr>doc = d, score = sim d, reason = ascii ''content_match''\<rparr>)
                               (filter (\<lambda>d. \<not> 0 < tag_matches lower keywords d \<and>
                                            float_of fl (15 / 100) < sim d) MOCK_DOCS)
                        else []);
              result = search_documents fl lower MOCK_DOCS query top_k
          in result = take (nat top_k) (sort_desc (found1 @ found2)) \<and>
             mset (sort_desc (found1 @ found2)) = mset (found1 @ found2) \<and>
             sorted_wrt (\<lambda>a b. score b \<le> score a) (sort_desc (found1 @ found2)) \<and>
             sorted_wrt (\<lambda>a b. score b \<le> score a) result \<and>
             length result \<le> nat top_k \<and>
             (\<forall>d. tag_matches lower keywords d =
                (let tags = map lower (entry_tags d);
                     exact = (\<lambda>k. k \<in> set tags);
                     partial = (\<lambda>k. \<exists>tag\<in>set tags. sublist k tag);
                     in_title = (\<lambda>k. sublist k (lower (entry_title d)));
                     in_category = (\<lambda>k. sublist k (lower (entry_category d)))
                 in 2 * of_nat (length (filter exact keywords)) +
                    1 * of_nat (length (filter (\<lambda>k. \<not> exact k \<and> partial k) keywords)) +
                    3 / 2 * of_nat (length (filter (\<lambda>k. \<not> exact k \<and> \<not> partial k \<and> in_title k)
                                              keywords)) +
                    1 * of_nat (length (filter (\<lambda>k. \<not> exact k \<and> \<not> partial k \<and> \<not> in_title k \<and>
                                                    in_category k) keywords)))))"
proof -
  let ?kw = "split (lower query)"
  let ?f1 = "phase1 fl lower MOCK_DOCS query"
  let ?f2 = "if int (length ?f1) < top_k
             then map (\<lambda>d. \<lparr>doc = d, score = ratio fl (lower query) (lower (entry_content d)),
                              reason = ascii ''content_match''\<rparr>)
                    (filter (\<lambda>d. \<not> 0 < tag_matches lower ?kw d \<and>
                                 float_of fl (15 / 100) < ratio fl (lower query) (lower (entry_content d)))
                       MOCK_DOCS)
             else []"
  have res: "search_documents fl lower MOCK_DOCS query top_k = take (nat top_k) (sort_desc (?f1 @ ?f2))"
    using assms(2)
    by (simp add: search_documents_def Let_def slice_to_def phase2_after_phase1 [OF assms(1)])
  have srt: "sorted_wrt (\<lambda>a b. score b \<le> score a) (sort_desc (?f1 @ ?f2))"
    by (rule sorted_sort_desc)
  have srt_take: "sorted_wrt (\<lambda>a b. score b \<le> score a) (take (nat top_k) (sort_desc (?f1 @ ?f2)))"
    using srt by (rule sorted_wrt_take)
  have ms: "mset (sort_desc (?f1 @ ?f2)) = mset (?f1 @ ?f2)"
    by (rule mset_sort_desc)
  have len: "length (take (nat top_k) (sort_desc (?f1 @ ?f2))) \<le> nat top_k"
    by simp
  have w: "\<forall>d. tag_matches lower ?kw d =
                (let tags = map lower (entry_tags d);
                     exact = (\<lambda>k. k \<in> set tags);
                     partial = (\<lambda>k. \<exists>tag\<in>set tags. sublist k tag);
                     in_title = (\<lambda>k. sublist k (lower (entry_title d)));
                     in_category = (\<lambda>k. sublist k (lower (entry_category d)))
                 in 2 * of_nat (length (filter exact ?kw)) +
                    1 * of_nat (length (filter (\<lambda>k. \<not> exact k \<and> partial k) ?kw)) +
                    3 / 2 * of_nat (length (filter (\<lambda>k. \<not> exact k \<and> \<not> partial k \<and> in_title k)
                                              ?kw)) +
                    1 * of_nat (length (filter (\<lambda>k. \<not> exact k \<and> \<not> partial k \<and> \<not> in_title k \<and>
                                                    in_category k) ?kw)))"
    by (rule allI) (rule tag_matches_weights)
  from res have res': "search_documents fl lower MOCK_DOCS query top_k
      = take (nat top_k) (sort_desc (?f1 @ ?f2)) \<and>
    sorted_wrt (\<lambda>a b. score b \<le> score a) (search_documents fl lower MOCK_DOCS query top_k) \<and>
    length (search_documents fl lower MOCK_DOCS query top_k) \<le> nat top_k"
    using srt_take len by (simp only: simp_thms)
  from res' srt ms w show ?thesis
    unfolding Let_def phase1_eq by (intro conjI) (elim conjE, assumption)+
qed


theorem search_documents_two_phase_witness:
  "map (\<lambda>r. (entry_id (doc r), score r, reason r))
     (search_documents (exact_floats (\<lambda>a b. 1 / 4)) lower_latin1
        [\<lparr>entry_id = 1, entry_title = ascii ''Seguro de Auto'', entry_content = ascii ''Deducible'',
          entry_category = ascii ''insurance'', entry_tags = [ascii ''auto'', ascii ''seguro'']\<rparr>,
         \<lparr>entry_id = 2, entry_title = ascii ''Plan Nutricional'', entry_content = ascii ''Dieta'',
          entry_category = ascii ''nutrition'', entry_tags = [ascii ''dieta'']\<rparr>]
        (ascii ''Seguro'') 3)
   = [(1, 13 / 10, ascii ''tag_match''), (2, 1 / 4, ascii ''content_match'')]"
proof -
  let ?cat = "[\<lparr>entry_id = 1, entry_title = ascii ''Seguro de Auto'', entry_content = ascii ''Deducible'',
          entry_category = ascii ''insurance'', entry_tags = [ascii ''auto'', ascii ''seguro'']\<rparr>,
         \<lparr>entry_id = 2, entry_title = ascii ''Plan Nutricional'', entry_content = ascii ''Dieta'',
          entry_category = ascii ''nutrition'', entry_tags = [ascii ''dieta'']\<rparr>]"
  have h1: "distinct (map entry_id ?cat)"
    by simp
  have h2: "(0::int) \<le> 3"
    by simp
  note t = search_documents_two_phase [OF h1 h2, where fl = "exact_floats (\<lambda>a b. 1 / 4)"
      and lower = lower_latin1 and query = "ascii ''Seguro''", unfolded Let_def,
      THEN conjunct1]
  have kw: "split (lower_latin1 (ascii ''Seguro'')) = [ascii ''seguro'']"
    by (simp add: split_def lower_latin1_def lower_char_def ascii_def is_space_def)
  show ?thesis
    unfolding t kw
    by (simp add: tag_matches_def keyword_weight_def exact_floats_def sort_desc_def
        lower_latin1_def lower_char_def ascii_def)
qed

text \<open>
  C9.  For every query, a search leaves the catalog as it was, and a second search
  with the same query on the catalog left by the first returns the same list in the
  same order.
\<close>

theorem search_is_repeatable:
  "snd (search_call fl lower query top_k store) = store \<and>
   fst (search_call fl lower query top_k (snd (search_call fl lower query top_k store)))
     = fst (search_call fl lower query top_k store)"
  by (simp add: search_call_def)

end
